theory Spec2Isabelle
  imports Main "HOL-Library.AList"
begin

section \<open>Data model: the four tables of models.py\<close>

text \<open>
  Every table is the list of its rows, named by its \<open>db_table\<close>. Primary keys and
  foreign keys are natural numbers; a foreign key column holds the primary key of the row
  it references. The columns of \<open>Field\<close>, \<open>Item\<close>, \<open>Language\<close> and \<open>Translation\<close> are
  prefixed \<open>f_\<close>, \<open>i_\<close>, \<open>l_\<close> and \<open>t_\<close>.
  A \<open>Language\<close> instance carries an optional primary key, because \<open>Language.save\<close> is
  part of the model below and an instance that was never saved has \<open>pk = None\<close>.
\<close>

record content_type_row =
  ct_pk :: nat
  ct_app_label :: string
  ct_model :: string

record field_row =
  f_pk :: nat
  f_content_type :: nat
  f_name :: string

record item_row =
  i_pk :: nat
  i_field :: nat
  i_object_id :: nat
  i_content_type :: nat

record language_row =
  l_pk :: "nat option"
  l_name :: string
  iso2 :: string
  iso3 :: string
  django_language_name :: string

record translation_row =
  t_pk :: nat
  t_language :: nat
  t_item :: nat
  t_text :: string

record database =
  django_content_type :: "content_type_row list"
  ddt_fields :: "field_row list"
  ddt_items :: "item_row list"
  ddt_languages :: "language_row list"
  ddt_translations :: "translation_row list"

text \<open>
  The exceptions the code can raise. \<open>DoesNotExist\<close> and \<open>MultipleObjectsReturned\<close>
  carry the name of the model whose manager raised them. \<open>AttributeError\<close> is raised by
  reading \<open>request.session\<close> on a request that has none, \<open>OverflowError\<close> by a lookup
  with an integer that does not fit an integer column of the database.
\<close>

datatype error =
    TypeError
  | DoesNotExist string
  | MultipleObjectsReturned string
  | IntegrityError
  | RecursionError
  | AttributeError
  | OverflowError

text \<open>
  \<open>Model.objects.get(**kwargs)\<close>: the rows matching the lookup are selected; exactly one
  row is returned, no row raises \<open>DoesNotExist\<close>, several rows raise
  \<open>MultipleObjectsReturned\<close>.
\<close>

definition objects_get :: "string \<Rightarrow> ('r \<Rightarrow> bool) \<Rightarrow> 'r list \<Rightarrow> error + 'r" where
  "objects_get model p rows =
     (case filter p rows of
        [] \<Rightarrow> Inl (DoesNotExist model)
      | [r] \<Rightarrow> Inr r
      | _ # _ # _ \<Rightarrow> Inl (MultipleObjectsReturned model))"

text \<open>
  The integer columns of the database hold 64-bit signed values. A lookup whose integer
  arguments do not all fit raises \<open>OverflowError\<close> before any row is selected; an
  argument that is \<open>None\<close> is no integer. \<open>keys_in_range\<close> is the test for the keys of
  instances, which are natural numbers, and \<open>id_in_range\<close> the one for a \<open>language_id\<close>,
  which is any integer of Python.
\<close>

definition max_key :: nat where
  "max_key = 9223372036854775807"

definition keys_in_range :: "nat option list \<Rightarrow> bool" where
  "keys_in_range ks = list_all (\<lambda>k. case k of None \<Rightarrow> True | Some n \<Rightarrow> n \<le> max_key) ks"

definition id_in_range :: "int option \<Rightarrow> bool" where
  "id_in_range k =
     (case k of None \<Rightarrow> True | Some n \<Rightarrow> - 9223372036854775808 \<le> n \<and> n \<le> int max_key)"


section \<open>Python values and strings\<close>

text \<open>
  \<open>str.upper\<close> and \<open>str.lower\<close> are functions of Python, defined on all of Unicode. The
  functions of the program that call them take them as the parameters \<open>str_upper\<close> and
  \<open>str_lower\<close>, so that no property below depends on how a character is mapped.
  \<open>ascii_upper\<close> and \<open>ascii_lower\<close> are what the two functions compute on ASCII text;
  they are used only to run the program on the sample data, which is ASCII.
\<close>

definition ascii_upper_char :: "char \<Rightarrow> char" where
  "ascii_upper_char c =
     (let n = (of_char c :: nat) in if 97 \<le> n \<and> n \<le> 122 then char_of (n - 32) else c)"


definition ascii_upper :: "string \<Rightarrow> string" where
  "ascii_upper s = map ascii_upper_char s"


text \<open>
  A \<open>FieldFile\<close> or \<open>ImageFieldFile\<close>: its \<open>name\<close>, \<open>url\<close> and \<open>path\<close>. Its truth value
  is \<open>bool(self.name)\<close>.
\<close>

record file_value =
  file_name :: string
  file_url :: string
  file_path :: string

text \<open>
  The values an attribute of a model instance can hold, and the values of the dictionaries
  the serializers build. \<open>PItem\<close> is an instance whose type is exactly \<open>Item\<close>;
  \<open>PModel r\<close> is an instance of any other subclass of \<open>models.Model\<close>, given by its
  reference \<open>r\<close> into the object store; \<open>PFile\<close> is a value whose type is \<open>FieldFile\<close> or
  \<open>ImageFieldFile\<close>.
\<close>

datatype pyval =
    PNone
  | PBool bool
  | PInt int
  | PStr string
  | PItem item_row
  | PModel nat
  | PFile file_value
  | PDict "(string \<times> pyval) list"

type_synonym pydict = "(string \<times> pyval) list"

text \<open>
  The object store maps the reference of a model instance to the list, in the order of
  \<open>instance._meta.get_fields()\<close>, of each field's name with the value of
  \<open>getattr(instance, field.name, None)\<close>. Instances may reference each other in cycles.
\<close>

type_synonym object_store = "nat \<Rightarrow> pydict"

section \<open>The mixin TranslatedModel of models.py\<close>

text \<open>
  An instance of a translatable model: \<open>self._meta.app_label\<close>, \<open>self._meta.model_name\<close>,
  \<open>self.__class__.__name__\<close>, \<open>self.id\<close> and \<open>self.__dict__\<close>. The methods read the label
  and the class name; the content type that Django stores for the model of the instance
  has the label as it is and the model name, which Django sets to the class name in lower
  case.
\<close>

record translated_model =
  meta_app_label :: string
  meta_model_name :: string
  class_name :: string
  self_id :: "nat option"
  self_dict :: pydict

definition get_content_type_instance ::
  "(string \<Rightarrow> string) \<Rightarrow> database \<Rightarrow> translated_model \<Rightarrow> error + content_type_row" where
  "get_content_type_instance str_lower db self =
     (let app = str_lower (meta_app_label self);
          model = str_lower (class_name self)
      in objects_get ''ContentType'' (\<lambda>c. ct_app_label c = app \<and> ct_model c = model)
           (django_content_type db))"


text \<open>
  \<open>get_translated_fields\<close> and \<open>get_translated_items\<close> return query sets; their rows are
  given here as they are when the query set is read.
\<close>

definition get_translated_fields ::
  "(string \<Rightarrow> string) \<Rightarrow> database \<Rightarrow> translated_model \<Rightarrow> error + field_row list" where
  "get_translated_fields str_lower db self =
     (case get_content_type_instance str_lower db self of
        Inl e \<Rightarrow> Inl e
      | Inr content_type \<Rightarrow>
          if keys_in_range [Some (ct_pk content_type)]
          then Inr (filter (\<lambda>f. f_content_type f = ct_pk content_type) (ddt_fields db))
          else Inl OverflowError)"


definition get_translated_items ::
  "(string \<Rightarrow> string) \<Rightarrow> database \<Rightarrow> translated_model \<Rightarrow> error + item_row list" where
  "get_translated_items str_lower db self =
     (case get_translated_fields str_lower db self of
        Inl e \<Rightarrow> Inl e
      | Inr fs \<Rightarrow>
          if keys_in_range [self_id self]
          then Inr (filter (\<lambda>i. Some (i_object_id i) = self_id self \<and> i_field i \<in> set (map f_pk fs))
                      (ddt_items db))
          else Inl OverflowError)"

definition language_by_pk :: "database \<Rightarrow> int option \<Rightarrow> error + language_row" where
  "language_by_pk db language_id =
     (if id_in_range language_id
      then objects_get ''Language''
             (\<lambda>l. language_id \<noteq> None \<and> map_option int (l_pk l) = language_id)
             (ddt_languages db)
      else Inl OverflowError)"




section \<open>The counters of Field, Item and Language\<close>





section \<open>Language.save\<close>

text \<open>
  The next value of an auto-increment primary key: above every key in use.
\<close>

definition next_pk :: "nat list \<Rightarrow> nat" where
  "next_pk pks = Suc (foldr max pks 0)"

text \<open>
  \<open>Model.save\<close> on one table: the row with the primary key of \<open>self\<close> is replaced if there
  is one, otherwise \<open>self\<close> is inserted. The database refuses the write with
  \<open>IntegrityError\<close> when another row conflicts with \<open>self\<close> on a unique constraint.
\<close>

definition save_row :: "('r \<Rightarrow> 'k) \<Rightarrow> ('r \<Rightarrow> 'r \<Rightarrow> bool) \<Rightarrow> 'r \<Rightarrow> 'r list \<Rightarrow> error + 'r list" where
  "save_row pk conflict self rows =
     (if list_ex (\<lambda>other. pk other \<noteq> pk self \<and> conflict other self) rows then Inl IntegrityError
      else if list_ex (\<lambda>other. pk other = pk self) rows
        then Inr (map (\<lambda>other. if pk other = pk self then self else other) rows)
        else Inr (rows @ [self]))"

text \<open>
  The columns \<open>name\<close>, \<open>iso2\<close>, \<open>iso3\<close> and \<open>django_language_name\<close> of \<open>Language\<close> are
  each declared \<open>unique=True\<close>.
\<close>

definition Language_conflict :: "language_row \<Rightarrow> language_row \<Rightarrow> bool" where
  "Language_conflict other self \<longleftrightarrow>
     l_name other = l_name self \<or> iso2 other = iso2 self \<or> iso3 other = iso3 self \<or>
     django_language_name other = django_language_name self"

text \<open>
  \<open>Language.save()\<close>: both codes are replaced by what \<open>str.upper\<close> returns for them, then
  \<open>Model.save\<close> runs; an instance without primary key receives the next one. The result is
  the instance as it is after the call, with the database.
\<close>

definition Language_save ::
  "(string \<Rightarrow> string) \<Rightarrow> language_row \<Rightarrow> database \<Rightarrow> error + (language_row \<times> database)" where
  "Language_save str_upper self db =
     (let self1 = self\<lparr>iso2 := str_upper (iso2 self)\<rparr>;
          self2 = self1\<lparr>iso3 := str_upper (iso3 self1)\<rparr>;
          self3 = (case l_pk self2 of
                     None \<Rightarrow> self2\<lparr>l_pk := Some (next_pk (List.map_filter l_pk (ddt_languages db)))\<rparr>
                   | Some k \<Rightarrow> self2)
      in case save_row l_pk Language_conflict self3 (ddt_languages db) of
           Inl e \<Rightarrow> Inl e
         | Inr rows \<Rightarrow> Inr (self3, db\<lparr>ddt_languages := rows\<rparr>))"

section \<open>Session helpers of utils.py\<close>

text \<open>
  A request is modelled by its attribute \<open>session\<close>, a dictionary from keys to strings. A
  request that did not pass the session middleware has no such attribute, and reading
  \<open>request.session\<close> raises \<open>AttributeError\<close>.
  \<open>LANGUAGE_SESSION_KEY\<close> is the constant of \<open>django.utils.translation\<close>.
\<close>

record request =
  session :: "(string \<times> string) list option"

definition LANGUAGE_SESSION_KEY :: string where
  "LANGUAGE_SESSION_KEY = ''_language''"

text \<open>
  The value \<open>get_language_from_session\<close> returns: a \<open>Language\<close> instance or \<open>False\<close>.
\<close>

datatype language_or_false = LFalse | Lang language_row

text \<open>
  \<open>get_language_from_session(request)\<close>: \<open>request.session.get(KEY, False)\<close>; a truthy name
  (a non-empty string) is looked up by \<open>django_language_name\<close>, and only
  \<open>Language.DoesNotExist\<close> is caught.
\<close>

definition get_language_from_session :: "database \<Rightarrow> request \<Rightarrow> error + language_or_false" where
  "get_language_from_session db req =
     (case session req of
        None \<Rightarrow> Inl AttributeError
      | Some sess \<Rightarrow>
          (case map_of sess LANGUAGE_SESSION_KEY of
             None \<Rightarrow> Inr LFalse
           | Some language_name \<Rightarrow>
               if language_name \<noteq> [] then
                 (case objects_get ''Language'' (\<lambda>l. django_language_name l = language_name)
                         (ddt_languages db) of
                    Inr language \<Rightarrow> Inr (Lang language)
                  | Inl (DoesNotExist m) \<Rightarrow> Inr LFalse
                  | Inl e \<Rightarrow> Inl e)
               else Inr LFalse))"

text \<open>
  \<open>update_user_language(request, language=None, language_id=None)\<close>. The result is the
  locale handed to \<open>activate\<close> together with the request whose session was written; the
  write to \<open>request.session\<close> is the last statement.
\<close>

definition update_user_language ::
  "database \<Rightarrow> request \<Rightarrow> language_row option \<Rightarrow> int option \<Rightarrow> error + (string \<times> request)" where
  "update_user_language db req language language_id =
     (if language = None \<and> language_id = None then Inl TypeError
      else
        (case (case language of
                 None \<Rightarrow> language_by_pk db language_id
               | Some l \<Rightarrow> Inr l) of
           Inl e \<Rightarrow> Inl e
         | Inr l \<Rightarrow>
             (case session req of
                None \<Rightarrow> Inl AttributeError
              | Some sess \<Rightarrow>
                  Inr (django_language_name l,
                       req\<lparr>session :=
                             Some (AList.update LANGUAGE_SESSION_KEY (django_language_name l) sess)\<rparr>))))"

section \<open>The serializers of utils.py\<close>

text \<open>
  The language a serializer works with once it is resolved: the \<open>language\<close> argument, or
  what \<open>get_language_from_session\<close> returned, which may be \<open>False\<close>. \<open>False\<close> is the primary
  key of no \<open>Language\<close> row, so a lookup by it matches no row.
\<close>

definition Translation_objects_get ::
  "database \<Rightarrow> item_row \<Rightarrow> language_or_false \<Rightarrow> error + translation_row" where
  "Translation_objects_get db item language =
     objects_get ''Translation''
       (\<lambda>t. t_item t = i_pk item \<and>
            (case language of LFalse \<Rightarrow> False | Lang l \<Rightarrow> Some (t_language t) = l_pk l))
       (ddt_translations db)"

definition truthy_file :: "file_value \<Rightarrow> bool" where
  "truthy_file f \<longleftrightarrow> file_name f \<noteq> []"

definition file_dict :: "file_value \<Rightarrow> pyval" where
  "file_dict f =
     PDict [(''name'', PStr (file_name f)), (''url'', PStr (file_url f)), (''path'', PStr (file_path f))]"

text \<open>
  The body of \<open>instance_as_translated_dict\<close> after the language is resolved.
  \<open>translated_dict_loop\<close> is the loop over the fields, with \<open>translated_dict\<close> as its
  accumulator; \<open>new_value\<close> is the case analysis on one value that is not \<open>None\<close>.
  The nested call \<open>instance_as_translated_dict(value, depth=True, language=language)\<close>
  receives a language that is not \<open>None\<close>, so it is the loop on the fields of \<open>value\<close>.
  Python bounds the nesting of calls: \<open>limit\<close> is the number of nested calls still
  allowed, and a call beyond it raises \<open>RecursionError\<close>.
\<close>

fun translated_dict_loop ::
      "nat \<Rightarrow> database \<Rightarrow> object_store \<Rightarrow> bool \<Rightarrow> language_or_false \<Rightarrow> pydict \<Rightarrow> pydict \<Rightarrow> error + pydict"
  and new_value ::
      "nat \<Rightarrow> database \<Rightarrow> object_store \<Rightarrow> bool \<Rightarrow> language_or_false \<Rightarrow> pyval \<Rightarrow> error + pyval"
where
  "translated_dict_loop limit db store depth language [] translated_dict = Inr translated_dict"
| "translated_dict_loop limit db store depth language ((name, value) # rest) translated_dict =
     (if value \<noteq> PNone then
        (case new_value limit db store depth language value of
           Inl e \<Rightarrow> Inl e
         | Inr v \<Rightarrow>
             translated_dict_loop limit db store depth language rest
               (AList.update name v translated_dict))
      else translated_dict_loop limit db store depth language rest translated_dict)"
| "new_value limit db store depth language (PItem item) =
     (case Translation_objects_get db item language of
        Inl e \<Rightarrow> Inl e
      | Inr translation \<Rightarrow> Inr (PStr (t_text translation)))"
| "new_value limit db store depth language (PModel r) =
     (if depth then
        (case limit of
           0 \<Rightarrow> Inl RecursionError
         | Suc k \<Rightarrow>
             (case translated_dict_loop k db store True language (store r) [] of
                Inl e \<Rightarrow> Inl e
              | Inr d \<Rightarrow> Inr (PDict d)))
      else Inr (PModel r))"
| "new_value limit db store depth language (PFile f) =
     (if truthy_file f then Inr (file_dict f) else Inr (PStr []))"
| "new_value limit db store depth language value = Inr value"

definition resolve_language ::
  "database \<Rightarrow> language_or_false option \<Rightarrow> request option \<Rightarrow> error + language_or_false" where
  "resolve_language db language request =
     (case language of
        Some l \<Rightarrow> Inr l
      | None \<Rightarrow>
          (case request of
             None \<Rightarrow> Inl TypeError
           | Some req \<Rightarrow> get_language_from_session db req))"

definition instance_as_translated_dict ::
  "nat \<Rightarrow> database \<Rightarrow> object_store \<Rightarrow> nat \<Rightarrow> bool \<Rightarrow> language_or_false option \<Rightarrow> request option \<Rightarrow>
   error + pydict" where
  "instance_as_translated_dict limit db store instance depth language request =
     (if language = None \<and> request = None then Inl TypeError
      else
        (case resolve_language db language request of
           Inl e \<Rightarrow> Inl e
         | Inr l \<Rightarrow> translated_dict_loop limit db store depth l (store instance) []))"

fun all_instances_loop ::
  "nat \<Rightarrow> database \<Rightarrow> object_store \<Rightarrow> bool \<Rightarrow> language_or_false \<Rightarrow> nat list \<Rightarrow> pydict list \<Rightarrow>
   error + pydict list" where
  "all_instances_loop limit db store depth language [] results = Inr results"
| "all_instances_loop limit db store depth language (instance # instances) results =
     (case instance_as_translated_dict limit db store instance depth (Some language) None of
        Inl e \<Rightarrow> Inl e
      | Inr result \<Rightarrow> all_instances_loop limit db store depth language instances (results @ [result]))"

definition all_instances_as_translated_dict ::
  "nat \<Rightarrow> database \<Rightarrow> object_store \<Rightarrow> nat list \<Rightarrow> bool \<Rightarrow> language_or_false option \<Rightarrow> request option \<Rightarrow>
   error + pydict list" where
  "all_instances_as_translated_dict limit db store instances depth language request =
     (if language = None \<and> request = None then Inl TypeError
      else
        (case resolve_language db language request of
           Inl e \<Rightarrow> Inl e
         | Inr l \<Rightarrow> all_instances_loop limit db store depth l instances []))"

section \<open>Writes and deletes on the four tables\<close>

text \<open>
  The rows of \<open>Translation\<close>, \<open>Item\<close> and \<open>Field\<close> are written with \<open>Model.save\<close> under the
  constraints their \<open>Meta\<close> classes declare: \<open>unique_together\<close> is
  \<open>[language, item]\<close>, \<open>[field, object_id]\<close> and \<open>[content_type, name]\<close>. A foreign key
  must reference a row that exists.
\<close>

definition Translation_conflict :: "translation_row \<Rightarrow> translation_row \<Rightarrow> bool" where
  "Translation_conflict other self \<longleftrightarrow>
     t_language other = t_language self \<and> t_item other = t_item self"

definition Item_conflict :: "item_row \<Rightarrow> item_row \<Rightarrow> bool" where
  "Item_conflict other self \<longleftrightarrow> i_field other = i_field self \<and> i_object_id other = i_object_id self"

definition Field_conflict :: "field_row \<Rightarrow> field_row \<Rightarrow> bool" where
  "Field_conflict other self \<longleftrightarrow>
     f_content_type other = f_content_type self \<and> f_name other = f_name self"

definition Translation_save :: "translation_row \<Rightarrow> database \<Rightarrow> error + database" where
  "Translation_save self db =
     (if \<not> (list_ex (\<lambda>i. i_pk i = t_item self) (ddt_items db) \<and>
             list_ex (\<lambda>l. l_pk l = Some (t_language self)) (ddt_languages db))
      then Inl IntegrityError
      else
        (case save_row t_pk Translation_conflict self (ddt_translations db) of
           Inl e \<Rightarrow> Inl e
         | Inr rows \<Rightarrow> Inr (db\<lparr>ddt_translations := rows\<rparr>)))"

definition Item_save :: "item_row \<Rightarrow> database \<Rightarrow> error + database" where
  "Item_save self db =
     (if \<not> (list_ex (\<lambda>f. f_pk f = i_field self) (ddt_fields db) \<and>
             list_ex (\<lambda>c. ct_pk c = i_content_type self) (django_content_type db))
      then Inl IntegrityError
      else
        (case save_row i_pk Item_conflict self (ddt_items db) of
           Inl e \<Rightarrow> Inl e
         | Inr rows \<Rightarrow> Inr (db\<lparr>ddt_items := rows\<rparr>)))"

definition Field_save :: "field_row \<Rightarrow> database \<Rightarrow> error + database" where
  "Field_save self db =
     (if \<not> list_ex (\<lambda>c. ct_pk c = f_content_type self) (django_content_type db)
      then Inl IntegrityError
      else
        (case save_row f_pk Field_conflict self (ddt_fields db) of
           Inl e \<Rightarrow> Inl e
         | Inr rows \<Rightarrow> Inr (db\<lparr>ddt_fields := rows\<rparr>)))"

text \<open>
  Modelled from the spec: \<open>ForeignKeyCascade\<close>, the class of the foreign keys
  \<open>Item.field\<close>, \<open>Translation.item\<close> and \<open>Translation.language\<close>, is not among the source
  files. The spec says: deleting a Field cascades to delete all its Items; deleting an
  Item cascades to delete all its Translations. A Translation has no dependent rows.
\<close>

definition Translation_delete :: "translation_row \<Rightarrow> database \<Rightarrow> database" where
  "Translation_delete self db =
     db\<lparr>ddt_translations := filter (\<lambda>t. t_pk t \<noteq> t_pk self) (ddt_translations db)\<rparr>"

definition Item_delete :: "item_row \<Rightarrow> database \<Rightarrow> database" where
  "Item_delete self db =
     db\<lparr>ddt_translations := filter (\<lambda>t. t_item t \<noteq> i_pk self) (ddt_translations db),
        ddt_items := filter (\<lambda>i. i_pk i \<noteq> i_pk self) (ddt_items db)\<rparr>"

definition Field_delete :: "field_row \<Rightarrow> database \<Rightarrow> database" where
  "Field_delete self db =
     (let db1 = fold Item_delete (filter (\<lambda>i. i_field i = f_pk self) (ddt_items db)) db
      in db1\<lparr>ddt_fields := filter (\<lambda>f. f_pk f \<noteq> f_pk self) (ddt_fields db1)\<rparr>)"

definition Language_delete :: "language_row \<Rightarrow> database \<Rightarrow> database" where
  "Language_delete self db =
     db\<lparr>ddt_translations := filter (\<lambda>t. Some (t_language t) \<noteq> l_pk self) (ddt_translations db),
        ddt_languages := filter (\<lambda>l. l_pk l \<noteq> l_pk self) (ddt_languages db)\<rparr>"

text \<open>
  Modelled from the spec: the signal handlers of \<open>signals.py\<close> are not among the source
  files. The spec says that a cascade creates one Translation row per Item and Language
  pair. \<open>create_translations\<close> inserts, one after the other, an empty translation for
  each pair of an item key and a language key; the reaction to a new Language pairs it
  with every Item, the reaction to a new Item pairs it with every Language.
\<close>

definition Translation_create :: "nat \<Rightarrow> nat \<Rightarrow> string \<Rightarrow> database \<Rightarrow> error + database" where
  "Translation_create item language text db =
     Translation_save
       \<lparr>t_pk = next_pk (map t_pk (ddt_translations db)), t_language = language, t_item = item,
        t_text = text\<rparr> db"

fun create_translations :: "(nat \<times> nat) list \<Rightarrow> database \<Rightarrow> error + database" where
  "create_translations [] db = Inr db"
| "create_translations ((item, language) # pairs) db =
     (case Translation_create item language [] db of
        Inl e \<Rightarrow> Inl e
      | Inr db1 \<Rightarrow> create_translations pairs db1)"

definition Language_created :: "language_row \<Rightarrow> database \<Rightarrow> error + database" where
  "Language_created self db =
     (case l_pk self of
        None \<Rightarrow> Inr db
      | Some k \<Rightarrow> create_translations (map (\<lambda>i. (i_pk i, k)) (ddt_items db)) db)"

definition Item_created :: "item_row \<Rightarrow> database \<Rightarrow> error + database" where
  "Item_created self db =
     create_translations (map (\<lambda>k. (i_pk self, k)) (List.map_filter l_pk (ddt_languages db))) db"

text \<open>
  The database states the application can reach: it starts with the four tables empty,
  and every step is one successful write or one delete. A write that raises leaves the
  state it found.
\<close>

inductive reachable :: "database \<Rightarrow> bool" where
  start:
    "ddt_fields db = [] \<Longrightarrow> ddt_items db = [] \<Longrightarrow> ddt_languages db = [] \<Longrightarrow>
     ddt_translations db = [] \<Longrightarrow> reachable db"
| field_saved: "reachable db \<Longrightarrow> Field_save f db = Inr db' \<Longrightarrow> reachable db'"
| item_saved: "reachable db \<Longrightarrow> Item_save i db = Inr db' \<Longrightarrow> reachable db'"
| language_saved:
    "reachable db \<Longrightarrow> Language_save str_upper l db = Inr (l', db') \<Longrightarrow> reachable db'"
| translation_saved: "reachable db \<Longrightarrow> Translation_save t db = Inr db' \<Longrightarrow> reachable db'"
| field_deleted: "reachable db \<Longrightarrow> reachable (Field_delete f db)"
| item_deleted: "reachable db \<Longrightarrow> reachable (Item_delete i db)"
| language_deleted: "reachable db \<Longrightarrow> reachable (Language_delete l db)"
| translation_deleted: "reachable db \<Longrightarrow> reachable (Translation_delete t db)"

section \<open>Sample data\<close>

text \<open>
  A small database: one translated field \<open>title\<close> of the model \<open>blog.Article\<close>, the
  article with id 7, two languages, and the two translations of the title. The French
  text is filled in, the English one is still empty.
\<close>

definition french :: language_row where
  "french = \<lparr>l_pk = Some 1, l_name = ''French'', iso2 = ''FR'', iso3 = ''FRA'',
             django_language_name = ''fr-FR''\<rparr>"

definition english :: language_row where
  "english = \<lparr>l_pk = Some 2, l_name = ''English'', iso2 = ''EN'', iso3 = ''ENG'',
              django_language_name = ''en-US''\<rparr>"

definition title_field :: field_row where
  "title_field = \<lparr>f_pk = 1, f_content_type = 1, f_name = ''title''\<rparr>"

definition title_item :: item_row where
  "title_item = \<lparr>i_pk = 1, i_field = 1, i_object_id = 7, i_content_type = 1\<rparr>"

definition sample_db :: database where
  "sample_db =
     \<lparr>django_content_type = [\<lparr>ct_pk = 1, ct_app_label = ''blog'', ct_model = ''article''\<rparr>],
      ddt_fields = [title_field],
      ddt_items = [title_item],
      ddt_languages = [french, english],
      ddt_translations =
        [\<lparr>t_pk = 1, t_language = 1, t_item = 1, t_text = ''Bonjour''\<rparr>,
         \<lparr>t_pk = 2, t_language = 2, t_item = 1, t_text = []\<rparr>]\<rparr>"

text \<open>A language row whose \<open>django_language_name\<close> is the empty string.\<close>

definition unnamed_locale :: language_row where
  "unnamed_locale = \<lparr>l_pk = Some 3, l_name = ''Klingon'', iso2 = ''TL'', iso3 = ''TLH'',
                     django_language_name = []\<rparr>"

text \<open>A language that was never saved, with codes in lower and mixed case, and the row
  that saving it stores.\<close>

definition german :: language_row where
  "german = \<lparr>l_pk = None, l_name = ''German'', iso2 = ''de'', iso3 = ''Deu'',
             django_language_name = ''de-DE''\<rparr>"

definition german_stored :: language_row where
  "german_stored = \<lparr>l_pk = Some 3, l_name = ''German'', iso2 = ''DE'', iso3 = ''DEU'',
                    django_language_name = ''de-DE''\<rparr>"




text \<open>A request without session, and requests whose session holds a locale name.\<close>

definition bare_request :: request where
  "bare_request = \<lparr>session = None\<rparr>"

definition request_with :: "string \<Rightarrow> request" where
  "request_with language_name = \<lparr>session = Some [(''_language'', language_name)]\<rparr>"

text \<open>
  The sample database after \<open>unnamed_locale\<close>, a language with an empty
  \<open>django_language_name\<close>, was saved into it.
\<close>

definition unnamed_db :: database where
  "unnamed_db = sample_db\<lparr>ddt_languages := [french, english, unnamed_locale]\<rparr>"

text \<open>
  The sample database with a second translated field \<open>body\<close>, its item for the article
  and the French translation of it.
\<close>

definition body_field :: field_row where
  "body_field = \<lparr>f_pk = 2, f_content_type = 1, f_name = ''body''\<rparr>"

definition body_item :: item_row where
  "body_item = \<lparr>i_pk = 2, i_field = 2, i_object_id = 7, i_content_type = 1\<rparr>"

definition body_translation :: translation_row where
  "body_translation = \<lparr>t_pk = 3, t_language = 1, t_item = 2, t_text = ''Texte''\<rparr>"

definition two_field_db :: database where
  "two_field_db =
     sample_db\<lparr>ddt_fields := [title_field, body_field], ddt_items := [title_item, body_item],
               ddt_translations := ddt_translations sample_db @ [body_translation]\<rparr>"

text \<open>
  An object store with two instances. Instance 0 is an article: its title is an Item, its
  subtitle is \<open>None\<close>, its photo is a file field without a file, and its author is
  instance 1, which has an avatar file. \<open>serialized_article\<close> and \<open>serialized_author\<close> are
  the dictionaries the serializer builds for them in French.
\<close>

definition empty_photo :: file_value where
  "empty_photo = \<lparr>file_name = [], file_url = [], file_path = []\<rparr>"

definition avatar :: file_value where
  "avatar = \<lparr>file_name = ''a.png'', file_url = ''/media/a.png'', file_path = ''/srv/media/a.png''\<rparr>"

definition sample_store :: object_store where
  "sample_store r =
     (if r = 0 then
        [(''id'', PInt 7), (''title'', PItem title_item), (''subtitle'', PNone),
         (''photo'', PFile empty_photo), (''author'', PModel 1)]
      else if r = 1 then
        [(''id'', PInt 3), (''name'', PStr ''Ann''), (''avatar'', PFile avatar)]
      else [])"

definition serialized_author :: pydict where
  "serialized_author =
     [(''id'', PInt 3), (''name'', PStr ''Ann''),
      (''avatar'', PDict [(''name'', PStr ''a.png''), (''url'', PStr ''/media/a.png''),
                          (''path'', PStr ''/srv/media/a.png'')])]"

definition serialized_article :: pydict where
  "serialized_article =
     [(''id'', PInt 7), (''title'', PStr ''Bonjour''), (''photo'', PStr []),
      (''author'', PDict serialized_author)]"

section \<open>Notions of the specification\<close>









text \<open>
  The invariant of the translation table that the writes maintain: primary keys are
  distinct, and so are the pairs of language and item.
\<close>

definition translations_wf :: "database \<Rightarrow> bool" where
  "translations_wf db \<longleftrightarrow>
     distinct (map t_pk (ddt_translations db)) \<and>
     distinct (map (\<lambda>t. (t_language t, t_item t)) (ddt_translations db))"

text \<open>
  The values that are neither \<open>None\<close>, nor a model instance, nor a file: the case
  "every other value" of the serializer.
\<close>

fun is_plain :: "pyval \<Rightarrow> bool" where
  "is_plain (PBool b) = True"
| "is_plain (PInt n) = True"
| "is_plain (PStr s) = True"
| "is_plain (PDict d) = True"
| "is_plain v = False"

section \<open>Verified properties\<close>

subsection \<open>Lookups that return one row\<close>

lemma objects_get_Inr_iff: "objects_get m p rows = Inr r \<longleftrightarrow> filter p rows = [r]"
  by (auto simp: objects_get_def split: list.splits)

lemma objects_get_none: "filter p rows = [] \<Longrightarrow> objects_get m p rows = Inl (DoesNotExist m)"
  by (simp add: objects_get_def)

lemma filter_key_le1:
  "distinct (map key rows) \<Longrightarrow> (\<And>x. x \<in> set rows \<Longrightarrow> p x \<Longrightarrow> key x = k) \<Longrightarrow>
   length (filter p rows) \<le> 1"
proof (induction rows)
  case Nil
  then show ?case by simp
next
  case (Cons a rows)
  show ?case
  proof (cases "p a")
    case True
    then have ka: "key a = k" using Cons.prems by simp
    have "filter p rows = []"
    proof (rule ccontr)
      assume "filter p rows \<noteq> []"
      then obtain x where x: "x \<in> set rows" "p x"
        by (metis filter_False)
      then have "key x = k" using Cons.prems by simp
      then have "key a \<in> key ` set rows" using ka x(1) by (metis image_eqI)
      with Cons.prems(1) show False by simp
    qed
    then show ?thesis using True by simp
  next
    case False
    then show ?thesis using Cons by simp
  qed
qed

lemma filter_key_single:
  assumes "distinct (map key rows)" "r \<in> set rows" "p r"
    "\<And>x. x \<in> set rows \<Longrightarrow> p x \<Longrightarrow> key x = key r"
  shows "filter p rows = [r]"
proof -
  have le: "length (filter p rows) \<le> 1"
    using assms(1,4) by (rule filter_key_le1)
  have "r \<in> set (filter p rows)" using assms(2,3) by simp
  then show ?thesis using le
    by (cases "filter p rows") auto
qed

lemma objects_get_unique:
  assumes "distinct (map key rows)" "r \<in> set rows" "p r"
    "\<And>x. x \<in> set rows \<Longrightarrow> p x \<Longrightarrow> key x = key r"
  shows "objects_get m p rows = Inr r"
proof -
  have "filter p rows = [r]"
    using assms by (rule filter_key_single[where key = key])
  then show ?thesis by (simp add: objects_get_Inr_iff)
qed


subsection \<open>Serializing without a language and without a request\<close>

text \<open>
  C6. When both \<open>language\<close> and \<open>request\<close> are absent, \<open>instance_as_translated_dict\<close> and
  \<open>all_instances_as_translated_dict\<close> raise \<open>TypeError\<close>: the result is the error, and no
  dictionary (nor list of dictionaries) is produced, whatever the instance, the
  database, the depth flag and the nesting limit are.
\<close>

theorem serializers_without_language_or_request_fail:
  "instance_as_translated_dict limit db store instance depth None None = Inl TypeError \<and>
   all_instances_as_translated_dict limit db store instances depth None None = Inl TypeError"
  by (simp add: instance_as_translated_dict_def all_instances_as_translated_dict_def)

subsection \<open>The language of the session\<close>

text \<open>
  C10, as amended. For a request that carries a session, and with the column
  \<open>django_language_name\<close> unique as it is declared, \<open>get_language_from_session\<close> does not
  raise. It returns \<open>False\<close> when the session holds no locale name or an empty one, and
  when the stored locale name is the \<open>django_language_name\<close> of no Language row; when the
  stored name is not empty and is the name of a Language row, it returns that row.
\<close>

theorem get_language_from_session_total:
  assumes uniq: "distinct (map django_language_name (ddt_languages db))"
      and carried: "session req = Some sess"
  shows "(\<exists>v. get_language_from_session db req = Inr v) \<and>
         (map_of sess LANGUAGE_SESSION_KEY = None \<or>
          map_of sess LANGUAGE_SESSION_KEY = Some [] \<longrightarrow>
            get_language_from_session db req = Inr LFalse) \<and>
         (\<forall>n. map_of sess LANGUAGE_SESSION_KEY = Some n \<and>
              (\<forall>l \<in> set (ddt_languages db). django_language_name l \<noteq> n) \<longrightarrow>
            get_language_from_session db req = Inr LFalse) \<and>
         (\<forall>n l. map_of sess LANGUAGE_SESSION_KEY = Some n \<and> n \<noteq> [] \<and>
              l \<in> set (ddt_languages db) \<and> django_language_name l = n \<longrightarrow>
            get_language_from_session db req = Inr (Lang l))"
proof -
  have found: "get_language_from_session db req = Inr (Lang l)"
    if "map_of sess LANGUAGE_SESSION_KEY = Some n" "n \<noteq> []"
       "l \<in> set (ddt_languages db)" "django_language_name l = n" for n l
  proof -
    have "objects_get ''Language'' (\<lambda>x. django_language_name x = n) (ddt_languages db) = Inr l"
      using uniq that(3)
      by (rule objects_get_unique[where key = django_language_name]) (simp_all add: that(4))
    then show ?thesis using that(1,2) by (simp add: get_language_from_session_def carried)
  qed
  have missing: "get_language_from_session db req = Inr LFalse"
    if "map_of sess LANGUAGE_SESSION_KEY = Some n"
       "\<forall>l \<in> set (ddt_languages db). django_language_name l \<noteq> n" for n
  proof -
    have "filter (\<lambda>x. django_language_name x = n) (ddt_languages db) = []"
      using that(2) by (simp add: filter_empty_conv)
    then have "objects_get ''Language'' (\<lambda>x. django_language_name x = n) (ddt_languages db)
                 = Inl (DoesNotExist ''Language'')"
      by (rule objects_get_none)
    then show ?thesis using that(1) by (simp add: get_language_from_session_def carried)
  qed
  have absent: "get_language_from_session db req = Inr LFalse"
    if "map_of sess LANGUAGE_SESSION_KEY = None \<or>
        map_of sess LANGUAGE_SESSION_KEY = Some []"
    using that by (auto simp: get_language_from_session_def carried)
  have total: "\<exists>v. get_language_from_session db req = Inr v"
  proof (cases "map_of sess LANGUAGE_SESSION_KEY")
    case None
    then show ?thesis using absent by blast
  next
    case (Some n)
    show ?thesis
    proof (cases "\<exists>l \<in> set (ddt_languages db). django_language_name l = n")
      case True
      then obtain l where l: "l \<in> set (ddt_languages db)" "django_language_name l = n" by blast
      show ?thesis
      proof (cases "n = []")
        case True
        then show ?thesis using absent Some by blast
      next
        case False
        then show ?thesis using found[OF Some False l] by blast
      qed
    next
      case False
      then show ?thesis using missing[OF Some] by blast
    qed
  qed
  show ?thesis using total absent missing found by blast
qed

theorem get_language_from_session_total_witness:
  "distinct (map django_language_name (ddt_languages sample_db)) \<and>
   get_language_from_session sample_db (request_with ''en-US'') = Inr (Lang english) \<and>
   get_language_from_session sample_db (request_with ''de-DE'') = Inr LFalse \<and>
   get_language_from_session sample_db \<lparr>session = Some []\<rparr> = Inr LFalse"
proof -
  have d: "distinct (map django_language_name (ddt_languages sample_db))"
    by (simp add: sample_db_def french_def english_def)
  have k: "LANGUAGE_SESSION_KEY = ''_language''" by (simp add: LANGUAGE_SESSION_KEY_def)
  have e: "english \<in> set (ddt_languages sample_db)" by (simp add: sample_db_def)
  have n: "\<forall>l \<in> set (ddt_languages sample_db). django_language_name l \<noteq> ''de-DE''"
    by (simp add: sample_db_def french_def english_def)
  have s: "session (request_with x) = Some [(''_language'', x)]" for x
    by (simp add: request_with_def)
  have "get_language_from_session sample_db (request_with ''en-US'') = Inr (Lang english)"
    using get_language_from_session_total[OF d s, of "''en-US''"] e
    by (simp add: k english_def)
  moreover have "get_language_from_session sample_db (request_with ''de-DE'') = Inr LFalse"
    using get_language_from_session_total[OF d s, of "''de-DE''"] n
    by (simp add: k)
  moreover have "get_language_from_session sample_db \<lparr>session = Some []\<rparr> = Inr LFalse"
    using get_language_from_session_total[OF d, of "\<lparr>session = Some []\<rparr>" "[]"] by simp
  ultimately show ?thesis using d by simp
qed

lemma unnamed_saved:
  "Language_save ascii_upper (unnamed_locale\<lparr>l_pk := None\<rparr>) sample_db =
     Inr (unnamed_locale, unnamed_db)"
proof -
  have u: "ascii_upper ''TL'' = ''TL''" "ascii_upper ''TLH'' = ''TLH''"
    by code_simp+
  show ?thesis
    by (simp add: Language_save_def unnamed_locale_def unnamed_db_def sample_db_def french_def
        english_def u next_pk_def List.map_filter_def save_row_def Language_conflict_def
        Let_def numeral_3_eq_3)
qed

text \<open>
  The claim C10 as it is written fails on two inputs. A request without session makes the
  function raise \<open>AttributeError\<close>. And after a language with an empty
  \<open>django_language_name\<close> was saved, a session that holds this name, the empty string, is
  answered by \<open>False\<close> although a Language row has that name.
\<close>

theorem get_language_from_session_total_counterexample:
  "get_language_from_session sample_db bare_request = Inl AttributeError \<and>
   Language_save ascii_upper (unnamed_locale\<lparr>l_pk := None\<rparr>) sample_db =
     Inr (unnamed_locale, unnamed_db) \<and>
   unnamed_locale \<in> set (ddt_languages unnamed_db) \<and>
   distinct (map django_language_name (ddt_languages unnamed_db)) \<and>
   django_language_name unnamed_locale = [] \<and>
   get_language_from_session unnamed_db (request_with []) = Inr LFalse"
  by (simp add: unnamed_saved)
    (simp add: get_language_from_session_def bare_request_def request_with_def
      LANGUAGE_SESSION_KEY_def unnamed_db_def unnamed_locale_def french_def english_def)

text \<open>
  C8, as amended. For a Language row that is stored in the database, whose
  \<open>django_language_name\<close> is unique among the rows and is not the empty string, and for a
  request that carries a session: \<open>update_user_language(request, language)\<close> activates
  that locale and writes it to the session, and \<open>get_language_from_session\<close> on the updated
  request returns that same Language.
\<close>

theorem update_user_language_roundtrip:
  assumes stored: "language \<in> set (ddt_languages db)"
      and uniq: "distinct (map django_language_name (ddt_languages db))"
      and named: "django_language_name language \<noteq> []"
      and carried: "session req = Some sess"
  shows "\<exists>req' sess'. update_user_language db req (Some language) language_id =
                   Inr (django_language_name language, req') \<and>
                session req' = Some sess' \<and>
                map_of sess' LANGUAGE_SESSION_KEY = Some (django_language_name language) \<and>
                get_language_from_session db req' = Inr (Lang language)"
proof -
  let ?sess' = "AList.update LANGUAGE_SESSION_KEY (django_language_name language) sess"
  let ?req' = "req\<lparr>session := Some ?sess'\<rparr>"
  have upd: "update_user_language db req (Some language) language_id =
               Inr (django_language_name language, ?req')"
    by (simp add: update_user_language_def carried)
  have held: "map_of ?sess' LANGUAGE_SESSION_KEY = Some (django_language_name language)"
    by (simp add: update_conv')
  have "objects_get ''Language'' (\<lambda>x. django_language_name x = django_language_name language)
          (ddt_languages db) = Inr language"
    using uniq stored by (rule objects_get_unique[where key = django_language_name]) simp_all
  then have "get_language_from_session db ?req' = Inr (Lang language)"
    using held named by (simp add: get_language_from_session_def)
  with upd held show ?thesis by (intro exI[of _ ?req'] exI[of _ ?sess']) simp
qed

theorem update_user_language_roundtrip_witness:
  "update_user_language sample_db (request_with ''en-US'') (Some french) None =
     Inr (''fr-FR'', request_with ''fr-FR'') \<and>
   get_language_from_session sample_db (request_with ''fr-FR'') = Inr (Lang french)"
proof -
  have a: "french \<in> set (ddt_languages sample_db)" by (simp add: sample_db_def)
  have b: "distinct (map django_language_name (ddt_languages sample_db))"
    by (simp add: sample_db_def french_def english_def)
  have c: "django_language_name french \<noteq> []" by (simp add: french_def)
  have s: "session (request_with ''en-US'') = Some [(''_language'', ''en-US'')]"
    by (simp add: request_with_def)
  have u: "update_user_language sample_db (request_with ''en-US'') (Some french) None =
     Inr (''fr-FR'', request_with ''fr-FR'')"
    by (simp add: update_user_language_def french_def LANGUAGE_SESSION_KEY_def request_with_def)
  from update_user_language_roundtrip[OF a b c s, of None] u show ?thesis
    by auto
qed

text \<open>
  The claim C8 as it is written fails for a stored Language whose \<open>django_language_name\<close>
  is empty, which \<open>Language.save\<close> stores like any other: the session then holds the empty
  string, and \<open>get_language_from_session\<close> returns \<open>False\<close>, not the Language. On a request
  without session the update itself raises \<open>AttributeError\<close>.
\<close>

theorem update_user_language_roundtrip_counterexample:
  "Language_save ascii_upper (unnamed_locale\<lparr>l_pk := None\<rparr>) sample_db =
     Inr (unnamed_locale, unnamed_db) \<and>
   distinct (map django_language_name (ddt_languages unnamed_db)) \<and>
   update_user_language unnamed_db (request_with ''fr-FR'') (Some unnamed_locale) None =
     Inr ([], request_with []) \<and>
   get_language_from_session unnamed_db (request_with []) = Inr LFalse \<and>
   update_user_language sample_db bare_request (Some french) None = Inl AttributeError"
  by (simp add: unnamed_saved)
    (simp add: update_user_language_def get_language_from_session_def bare_request_def
      request_with_def LANGUAGE_SESSION_KEY_def unnamed_db_def unnamed_locale_def french_def
      english_def)

subsection \<open>Saving a Language\<close>

lemma save_row_cases:
  "save_row pk conflict self rows = Inl e \<Longrightarrow>
     e = IntegrityError \<and> (\<exists>other \<in> set rows. pk other \<noteq> pk self \<and> conflict other self)"
  by (auto simp: save_row_def list_ex_iff split: if_splits)

lemma save_row_stored:
  "save_row pk conflict self rows = Inr rows' \<Longrightarrow>
     self \<in> set rows' \<and> (\<forall>r \<in> set rows'. pk r = pk self \<longrightarrow> r = self)"
  by (auto simp: save_row_def list_ex_iff split: if_splits)

lemma Language_save_unfold:
  assumes "self3 = (case l_pk self of
                     None \<Rightarrow> self\<lparr>iso2 := str_upper (iso2 self), iso3 := str_upper (iso3 self),
                                 l_pk := Some (next_pk (List.map_filter l_pk (ddt_languages db)))\<rparr>
                   | Some k \<Rightarrow> self\<lparr>iso2 := str_upper (iso2 self), iso3 := str_upper (iso3 self)\<rparr>)"
  shows "Language_save str_upper self db =
           (case save_row l_pk Language_conflict self3 (ddt_languages db) of
              Inl e \<Rightarrow> Inl e
            | Inr rows \<Rightarrow> Inr (self3, db\<lparr>ddt_languages := rows\<rparr>))"
  by (cases "l_pk self") (simp_all add: assms Language_save_def Let_def cong: sum.case_cong)

text \<open>
  C5. \<open>Language.save()\<close> either is refused by the database, because another row holds the
  same name, locale name or upper-cased code, or it stores the instance: the stored row
  is \<open>self'\<close>, its \<open>iso2\<close> and \<open>iso3\<close> are what \<open>str.upper\<close> returns for the values that were
  assigned before saving, whatever their case and their characters are, and its \<open>name\<close>
  and \<open>django_language_name\<close> are the ones assigned; a primary key that was set is kept.
\<close>

theorem Language_save_uppercases_codes:
  "(case Language_save str_upper self db of
      Inl e \<Rightarrow>
        e = IntegrityError \<and>
        (\<exists>other \<in> set (ddt_languages db).
           (l_pk self \<noteq> None \<longrightarrow> l_pk other \<noteq> l_pk self) \<and>
           (l_name other = l_name self \<or> iso2 other = str_upper (iso2 self) \<or>
            iso3 other = str_upper (iso3 self) \<or> django_language_name other = django_language_name self))
    | Inr (self', db') \<Rightarrow>
        self' \<in> set (ddt_languages db') \<and>
        (\<forall>r \<in> set (ddt_languages db'). l_pk r = l_pk self' \<longrightarrow> r = self') \<and>
        iso2 self' = str_upper (iso2 self) \<and> iso3 self' = str_upper (iso3 self) \<and>
        l_name self' = l_name self \<and> django_language_name self' = django_language_name self \<and>
        l_pk self' \<noteq> None \<and> (l_pk self \<noteq> None \<longrightarrow> l_pk self' = l_pk self))"
proof -
  define self3 where "self3 = (case l_pk self of
                     None \<Rightarrow> self\<lparr>iso2 := str_upper (iso2 self), iso3 := str_upper (iso3 self),
                                 l_pk := Some (next_pk (List.map_filter l_pk (ddt_languages db)))\<rparr>
                   | Some k \<Rightarrow> self\<lparr>iso2 := str_upper (iso2 self), iso3 := str_upper (iso3 self)\<rparr>)"
  have eq: "Language_save str_upper self db =
           (case save_row l_pk Language_conflict self3 (ddt_languages db) of
              Inl e \<Rightarrow> Inl e
            | Inr rows \<Rightarrow> Inr (self3, db\<lparr>ddt_languages := rows\<rparr>))"
    using self3_def by (rule Language_save_unfold)
  have cols: "iso2 self3 = str_upper (iso2 self)" "iso3 self3 = str_upper (iso3 self)"
    "l_name self3 = l_name self" "django_language_name self3 = django_language_name self"
    by (simp_all add: self3_def split: option.splits)
  have pk: "l_pk self3 \<noteq> None" "l_pk self \<noteq> None \<longrightarrow> l_pk self3 = l_pk self"
    by (simp_all add: self3_def split: option.splits)
  show ?thesis
  proof (cases "save_row l_pk Language_conflict self3 (ddt_languages db)")
    case (Inl e)
    from save_row_cases[OF Inl] obtain other where
      e: "e = IntegrityError" and o: "other \<in> set (ddt_languages db)" "l_pk other \<noteq> l_pk self3"
        "Language_conflict other self3" by blast
    have "l_pk self \<noteq> None \<longrightarrow> l_pk other \<noteq> l_pk self"
      using o(2) pk(2) by auto
    moreover have "l_name other = l_name self \<or> iso2 other = str_upper (iso2 self) \<or>
            iso3 other = str_upper (iso3 self) \<or> django_language_name other = django_language_name self"
      using o(3) by (simp add: Language_conflict_def cols)
    ultimately show ?thesis using e o(1) by (simp add: eq Inl) blast
  next
    case (Inr rows)
    from save_row_stored[OF Inr] show ?thesis
      using cols pk by (simp add: eq Inr)
  qed
qed

lemma upper_de: "ascii_upper ''de'' = ''DE''" "ascii_upper ''Deu'' = ''DEU''"
  by code_simp+

lemma german_saved:
  "Language_save ascii_upper german sample_db =
     Inr (german_stored, sample_db\<lparr>ddt_languages := [french, english, german_stored]\<rparr>)"
  by (simp add: Language_save_def german_def german_stored_def sample_db_def french_def
      english_def upper_de next_pk_def List.map_filter_def save_row_def Language_conflict_def
      Let_def numeral_3_eq_3)

theorem Language_save_uppercases_codes_witness:
  "Language_save ascii_upper german sample_db =
     Inr (german_stored, sample_db\<lparr>ddt_languages := [french, english, german_stored]\<rparr>) \<and>
   iso2 german_stored = ascii_upper (iso2 german) \<and>
   iso3 german_stored = ascii_upper (iso3 german) \<and>
   l_name german_stored = l_name german \<and>
   django_language_name german_stored = django_language_name german"
  using Language_save_uppercases_codes[where self = german and db = sample_db
      and str_upper = ascii_upper]
  by (simp add: german_saved)

subsection \<open>The counters of missing translations\<close>







subsection \<open>The lookups of the mixin\<close>



lemma filter_single_set:
  assumes "filter p xs = [r]"
  shows "{x \<in> set xs. p x} = {r}"
proof -
  have "set (filter p xs) = {r}" unfolding assms by simp
  then show ?thesis by (simp only: set_filter)
qed

lemma filter_singleD: "filter p xs = [r] \<Longrightarrow> x \<in> set xs \<Longrightarrow> p x \<Longrightarrow> x = r"
  using filter_single_set by fastforce



lemma keys_in_range_append: "keys_in_range (xs @ ys) \<longleftrightarrow> keys_in_range xs \<and> keys_in_range ys"
  by (simp add: keys_in_range_def)

lemma keys_in_range_Cons: "keys_in_range (x # xs) \<longleftrightarrow> keys_in_range [x] \<and> keys_in_range xs"
  by (simp add: keys_in_range_def)














subsection \<open>The dictionary with translations\<close>









subsection \<open>Deleting a Field\<close>

lemma fold_Item_delete:
  "ddt_items (fold Item_delete xs db) = filter (\<lambda>i. i_pk i \<notin> i_pk ` set xs) (ddt_items db) \<and>
   ddt_translations (fold Item_delete xs db) =
     filter (\<lambda>t. t_item t \<notin> i_pk ` set xs) (ddt_translations db) \<and>
   ddt_fields (fold Item_delete xs db) = ddt_fields db \<and>
   ddt_languages (fold Item_delete xs db) = ddt_languages db \<and>
   django_content_type (fold Item_delete xs db) = django_content_type db"
proof (induction xs arbitrary: db)
  case Nil
  show ?case by simp
next
  case (Cons x xs)
  have items: "ddt_items (Item_delete x db) = filter (\<lambda>i. i_pk i \<noteq> i_pk x) (ddt_items db)"
    and trans: "ddt_translations (Item_delete x db) = filter (\<lambda>t. t_item t \<noteq> i_pk x) (ddt_translations db)"
    and rest: "ddt_fields (Item_delete x db) = ddt_fields db"
      "ddt_languages (Item_delete x db) = ddt_languages db"
      "django_content_type (Item_delete x db) = django_content_type db"
    by (simp_all add: Item_delete_def)
  show ?case
    using Cons.IH[of "Item_delete x db"]
    by (simp add: items trans rest conj_commute)
qed

lemma same_pk_same_row:
  "distinct (map key rows) \<Longrightarrow> a \<in> set rows \<Longrightarrow> b \<in> set rows \<Longrightarrow> key a = key b \<Longrightarrow> a = b"
  by (meson distinct_map inj_onD)

text \<open>
  C2. Deleting a Field removes the Field row, every Item row that references it and
  every Translation row that references one of those Items; every other Field, Item and
  Translation row, and all Language and ContentType rows, are kept. The primary keys of
  the items are distinct, which is the hypothesis.
\<close>

theorem Field_delete_cascade_closure:
  assumes pks: "distinct (map i_pk (ddt_items db))"
  shows "ddt_fields (Field_delete field db) = filter (\<lambda>f. f_pk f \<noteq> f_pk field) (ddt_fields db) \<and>
         ddt_items (Field_delete field db) = filter (\<lambda>i. i_field i \<noteq> f_pk field) (ddt_items db) \<and>
         ddt_translations (Field_delete field db) =
           filter (\<lambda>t. \<not> (\<exists>i \<in> set (ddt_items db). i_field i = f_pk field \<and> t_item t = i_pk i))
             (ddt_translations db) \<and>
         ddt_languages (Field_delete field db) = ddt_languages db \<and>
         django_content_type (Field_delete field db) = django_content_type db"
proof -
  let ?its = "filter (\<lambda>i. i_field i = f_pk field) (ddt_items db)"
  note f = fold_Item_delete[of ?its db]
  have items: "filter (\<lambda>i. i_pk i \<notin> i_pk ` set ?its) (ddt_items db) =
               filter (\<lambda>i. i_field i \<noteq> f_pk field) (ddt_items db)"
  proof (rule filter_cong[OF refl])
    fix i assume i: "i \<in> set (ddt_items db)"
    show "(i_pk i \<notin> i_pk ` set ?its) = (i_field i \<noteq> f_pk field)"
    proof
      assume "i_pk i \<notin> i_pk ` set ?its"
      then show "i_field i \<noteq> f_pk field" using i by auto
    next
      assume n: "i_field i \<noteq> f_pk field"
      show "i_pk i \<notin> i_pk ` set ?its"
      proof
        assume "i_pk i \<in> i_pk ` set ?its"
        then obtain j where j: "j \<in> set (ddt_items db)" "i_field j = f_pk field" "i_pk i = i_pk j"
          by auto
        from same_pk_same_row[OF pks i j(1) j(3)] have "i = j" .
        with n j(2) show False by simp
      qed
    qed
  qed
  have trans: "filter (\<lambda>t. t_item t \<notin> i_pk ` set ?its) (ddt_translations db) =
               filter (\<lambda>t. \<not> (\<exists>i \<in> set (ddt_items db). i_field i = f_pk field \<and> t_item t = i_pk i))
                 (ddt_translations db)"
    by (rule filter_cong[OF refl]) auto
  show ?thesis
    using f items trans by (simp add: Field_delete_def Let_def)
qed

theorem Field_delete_cascade_closure_witness:
  "distinct (map i_pk (ddt_items two_field_db)) \<and>
   ddt_fields (Field_delete title_field two_field_db) = [body_field] \<and>
   ddt_items (Field_delete title_field two_field_db) = [body_item] \<and>
   ddt_translations (Field_delete title_field two_field_db) = [body_translation] \<and>
   ddt_languages (Field_delete title_field two_field_db) = [french, english]"
proof -
  have d: "distinct (map i_pk (ddt_items two_field_db))"
    by (simp add: two_field_db_def title_item_def body_item_def)
  from Field_delete_cascade_closure[OF d, of title_field] d show ?thesis
    by (simp add: two_field_db_def sample_db_def title_field_def title_item_def body_field_def
        body_item_def body_translation_def)
qed

subsection \<open>One translation for an item and a language\<close>

lemma replace_row_pks:
  "map (\<lambda>other. pk (if pk other = pk self then self else other)) rows = map pk rows"
  by (rule map_cong) auto

lemma replace_row_keys:
  "distinct (map pk rows) \<Longrightarrow> distinct (map key rows) \<Longrightarrow>
   \<forall>other \<in> set rows. pk other \<noteq> pk self \<longrightarrow> key other \<noteq> key self \<Longrightarrow>
   distinct (map (\<lambda>other. key (if pk other = pk self then self else other)) rows)"
proof (induction rows)
  case Nil
  then show ?case by simp
next
  case (Cons a rows)
  have ih: "distinct (map (\<lambda>other. key (if pk other = pk self then self else other)) rows)"
    using Cons by simp
  show ?case
  proof (cases "pk a = pk self")
    case True
    have others: "\<forall>other \<in> set rows. pk other \<noteq> pk self"
      using Cons.prems(1) True by (auto simp: image_iff)
    then have same: "map (\<lambda>other. key (if pk other = pk self then self else other)) rows = map key rows"
      by (auto intro: map_cong)
    have "key self \<notin> key ` set rows"
      using others Cons.prems(3) by (auto simp: image_iff)
    then show ?thesis using True Cons.prems(2) by (simp add: same)
  next
    case False
    have ka: "key a \<noteq> key self" using False Cons.prems(3) by simp
    have kr: "key a \<notin> key ` set rows" using Cons.prems(2) by simp
    have "key a \<noteq> key (if pk other = pk self then self else other)" if "other \<in> set rows" for other
      using ka kr that by (cases "pk other = pk self") auto
    then have "key a \<notin> (\<lambda>other. key (if pk other = pk self then self else other)) ` set rows"
      by blast
    then show ?thesis using False ih by simp
  qed
qed

lemma save_row_distinct:
  assumes s: "save_row pk conflict self rows = Inr rows'"
    and dp: "distinct (map pk rows)" and dk: "distinct (map key rows)"
    and ck: "\<And>a b. conflict a b \<longleftrightarrow> key a = key b"
  shows "distinct (map pk rows') \<and> distinct (map key rows')"
proof -
  have free: "\<forall>other \<in> set rows. pk other \<noteq> pk self \<longrightarrow> key other \<noteq> key self"
    using s by (auto simp: save_row_def list_ex_iff ck split: if_splits)
  show ?thesis
  proof (cases "list_ex (\<lambda>other. pk other = pk self) rows")
    case True
    then have r: "rows' = map (\<lambda>other. if pk other = pk self then self else other) rows"
      using s by (auto simp: save_row_def split: if_splits)
    have "map pk rows' = map pk rows"
      using replace_row_pks[of pk self rows] by (simp add: r comp_def)
    moreover have "distinct (map key rows')"
      using replace_row_keys[OF dp dk free] by (simp add: r comp_def)
    ultimately show ?thesis using dp by simp
  next
    case False
    then have r: "rows' = rows @ [self]"
      using s by (auto simp: save_row_def split: if_splits)
    have "\<forall>other \<in> set rows. pk other \<noteq> pk self" using False by (simp add: list_ex_iff)
    then show ?thesis using dp dk free by (auto simp: r image_iff)
  qed
qed

lemma Translation_save_wf:
  assumes "Translation_save t db = Inr db'" "translations_wf db"
  shows "translations_wf db'"
proof -
  from assms(1) obtain rows where
    r: "save_row t_pk Translation_conflict t (ddt_translations db) = Inr rows"
    and d: "db' = db\<lparr>ddt_translations := rows\<rparr>"
    by (auto simp: Translation_save_def split: if_splits sum.splits)
  have "distinct (map t_pk rows) \<and> distinct (map (\<lambda>t. (t_language t, t_item t)) rows)"
    using r
  proof (rule save_row_distinct)
    show "distinct (map t_pk (ddt_translations db))"
      "distinct (map (\<lambda>t. (t_language t, t_item t)) (ddt_translations db))"
      using assms(2) by (simp_all add: translations_wf_def)
    show "Translation_conflict a b \<longleftrightarrow> (t_language a, t_item a) = (t_language b, t_item b)" for a b
      by (simp add: Translation_conflict_def)
  qed
  then show ?thesis by (simp add: translations_wf_def d)
qed

lemma other_saves_keep_translations:
  "Field_save f db = Inr db' \<Longrightarrow> ddt_translations db' = ddt_translations db"
  "Item_save i db = Inr db' \<Longrightarrow> ddt_translations db' = ddt_translations db"
  "Language_save str_upper l db = Inr (l', db') \<Longrightarrow> ddt_translations db' = ddt_translations db"
  by (auto simp: Field_save_def Item_save_def Language_save_def Let_def
      split: if_splits sum.splits option.splits)

lemma deletes_filter_translations:
  "\<exists>p. ddt_translations (Translation_delete t db) = filter p (ddt_translations db)"
  "\<exists>p. ddt_translations (Item_delete i db) = filter p (ddt_translations db)"
  "\<exists>p. ddt_translations (Language_delete l db) = filter p (ddt_translations db)"
  "\<exists>p. ddt_translations (Field_delete f db) = filter p (ddt_translations db)"
proof -
  show "\<exists>p. ddt_translations (Translation_delete t db) = filter p (ddt_translations db)"
    by (auto simp: Translation_delete_def)
  show "\<exists>p. ddt_translations (Item_delete i db) = filter p (ddt_translations db)"
    by (auto simp: Item_delete_def)
  show "\<exists>p. ddt_translations (Language_delete l db) = filter p (ddt_translations db)"
    by (auto simp: Language_delete_def)
  have "ddt_translations (Field_delete f db) =
        filter (\<lambda>t. t_item t \<notin> i_pk ` set (filter (\<lambda>i. i_field i = f_pk f) (ddt_items db)))
          (ddt_translations db)"
    using fold_Item_delete[of "filter (\<lambda>i. i_field i = f_pk f) (ddt_items db)" db]
    by (simp add: Field_delete_def Let_def)
  then show "\<exists>p. ddt_translations (Field_delete f db) = filter p (ddt_translations db)"
    by blast
qed

lemma filter_wf:
  "translations_wf db \<Longrightarrow> ddt_translations db' = filter p (ddt_translations db) \<Longrightarrow>
   translations_wf db'"
  by (simp add: translations_wf_def distinct_map_filter)

lemma reachable_wf: "reachable db \<Longrightarrow> translations_wf db"
proof (induction rule: reachable.induct)
  case (start db)
  then show ?case by (simp add: translations_wf_def)
next
  case (field_saved db f db')
  then show ?case using other_saves_keep_translations(1) by (simp add: translations_wf_def)
next
  case (item_saved db i db')
  then show ?case using other_saves_keep_translations(2) by (simp add: translations_wf_def)
next
  case (language_saved db l l' db')
  then show ?case using other_saves_keep_translations(3) by (simp add: translations_wf_def)
next
  case (translation_saved db t db')
  then show ?case using Translation_save_wf by blast
next
  case (field_deleted db f)
  then show ?case using deletes_filter_translations(4) filter_wf by blast
next
  case (item_deleted db i)
  then show ?case using deletes_filter_translations(2) filter_wf by blast
next
  case (language_deleted db l)
  then show ?case using deletes_filter_translations(3) filter_wf by blast
next
  case (translation_deleted db t)
  then show ?case using deletes_filter_translations(1) filter_wf by blast
qed

lemma reachable_create_translations:
  "reachable db \<Longrightarrow> create_translations pairs db = Inr db' \<Longrightarrow> reachable db'"
proof (induction pairs arbitrary: db)
  case Nil
  then show ?case by simp
next
  case (Cons p pairs)
  obtain item language where p: "p = (item, language)" by (cases p)
  from Cons.prems(2) obtain db1 where
    one: "Translation_create item language [] db = Inr db1"
    and rest: "create_translations pairs db1 = Inr db'"
    by (auto simp: p split: sum.splits)
  from one have "reachable db1"
    using Cons.prems(1) by (auto simp: Translation_create_def intro: reachable.translation_saved)
  then show ?case using rest by (rule Cons.IH)
qed

lemma reachable_reactions:
  "reachable db \<Longrightarrow> Language_created l db = Inr db' \<Longrightarrow> reachable db'"
  "reachable db \<Longrightarrow> Item_created i db = Inr db' \<Longrightarrow> reachable db'"
proof -
  show "reachable db \<Longrightarrow> Language_created l db = Inr db' \<Longrightarrow> reachable db'"
    by (cases "l_pk l") (auto simp: Language_created_def intro: reachable_create_translations)
  show "reachable db \<Longrightarrow> Item_created i db = Inr db' \<Longrightarrow> reachable db'"
    by (auto simp: Item_created_def intro: reachable_create_translations)
qed

text \<open>
  C3. In every reachable database state there is, for any item and any language, at most
  one Translation row with that item and that language. Every operation preserves this:
  the states after a write or delete are reachable states again, and so are the states
  after a successful save of a Translation and after the insertion of a batch of
  translations that reacts to a new Item or Language.
\<close>

theorem reachable_translation_unique:
  assumes "reachable db"
  shows "length (filter (\<lambda>t. t_item t = item \<and> t_language t = language) (ddt_translations db)) \<le> 1 \<and>
         (\<forall>t db'. Translation_save t db = Inr db' \<longrightarrow>
            length (filter (\<lambda>t. t_item t = item \<and> t_language t = language) (ddt_translations db')) \<le> 1) \<and>
         (\<forall>pairs db'. create_translations pairs db = Inr db' \<longrightarrow>
            length (filter (\<lambda>t. t_item t = item \<and> t_language t = language) (ddt_translations db')) \<le> 1)"
proof -
  have one: "length (filter (\<lambda>t. t_item t = item \<and> t_language t = language) (ddt_translations d)) \<le> 1"
    if "reachable d" for d
  proof -
    have "distinct (map (\<lambda>t. (t_language t, t_item t)) (ddt_translations d))"
      using reachable_wf[OF that] by (simp add: translations_wf_def)
    then show ?thesis
      by (rule filter_key_le1[where k = "(language, item)"]) simp
  qed
  show ?thesis
    using one assms reachable.translation_saved reachable_create_translations by blast
qed


lemma upper_sample:
  "ascii_upper ''FR'' = ''FR''" "ascii_upper ''FRA'' = ''FRA''"
  "ascii_upper ''EN'' = ''EN''" "ascii_upper ''ENG'' = ''ENG''"
  by code_simp+

lemma sample_reachable: "reachable sample_db"
proof -
  let ?t1 = "\<lparr>t_pk = 1, t_language = 1, t_item = 1, t_text = ''Bonjour''\<rparr>"
  let ?t2 = "\<lparr>t_pk = 2, t_language = 2, t_item = 1, t_text = []\<rparr>"
  let ?db0 = "sample_db\<lparr>ddt_fields := [], ddt_items := [], ddt_languages := [], ddt_translations := []\<rparr>"
  let ?db1 = "sample_db\<lparr>ddt_items := [], ddt_languages := [], ddt_translations := []\<rparr>"
  let ?db2 = "sample_db\<lparr>ddt_languages := [], ddt_translations := []\<rparr>"
  let ?db3 = "sample_db\<lparr>ddt_languages := [french], ddt_translations := []\<rparr>"
  let ?db4 = "sample_db\<lparr>ddt_translations := []\<rparr>"
  let ?db5 = "sample_db\<lparr>ddt_translations := [?t1]\<rparr>"
  have r0: "reachable ?db0" by (rule reachable.start) simp_all
  have "Field_save title_field ?db0 = Inr ?db1"
    by (simp add: Field_save_def save_row_def sample_db_def title_field_def)
  with r0 have r1: "reachable ?db1" by (rule reachable.field_saved)
  have "Item_save title_item ?db1 = Inr ?db2"
    by (simp add: Item_save_def save_row_def sample_db_def title_field_def title_item_def)
  with r1 have r2: "reachable ?db2" by (rule reachable.item_saved)
  have "Language_save ascii_upper french ?db2 = Inr (french, ?db3)"
    by (simp add: Language_save_def save_row_def sample_db_def french_def upper_sample Let_def)
  with r2 have r3: "reachable ?db3" by (rule reachable.language_saved)
  have "Language_save ascii_upper english ?db3 = Inr (english, ?db4)"
    by (simp add: Language_save_def save_row_def sample_db_def french_def english_def
        upper_sample Let_def Language_conflict_def)
  with r3 have r4: "reachable ?db4" by (rule reachable.language_saved)
  have "Translation_save ?t1 ?db4 = Inr ?db5"
    by (simp add: Translation_save_def save_row_def sample_db_def french_def english_def
        title_item_def)
  with r4 have r5: "reachable ?db5" by (rule reachable.translation_saved)
  have "Translation_save ?t2 ?db5 = Inr sample_db"
    by (simp add: Translation_save_def save_row_def sample_db_def french_def english_def
        title_item_def Translation_conflict_def)
  with r5 show ?thesis by (rule reachable.translation_saved)
qed

lemma duplicate_refused:
  "Translation_save \<lparr>t_pk = 9, t_language = 1, t_item = 1, t_text = ''Salut''\<rparr> sample_db =
     Inl IntegrityError"
  by (simp add: Translation_save_def save_row_def sample_db_def french_def english_def
      title_item_def Translation_conflict_def)

theorem reachable_translation_unique_witness:
  "reachable sample_db \<and>
   length (filter (\<lambda>t. t_item t = 1 \<and> t_language t = 1) (ddt_translations sample_db)) \<le> 1 \<and>
   Translation_save \<lparr>t_pk = 9, t_language = 1, t_item = 1, t_text = ''Salut''\<rparr> sample_db =
     Inl IntegrityError"
  using reachable_translation_unique[OF sample_reachable, of 1 1] sample_reachable duplicate_refused by simp

subsection \<open>The serializer of an instance\<close>

lemma loop_Inr:
  "translated_dict_loop limit db store depth language fs acc = Inr d \<Longrightarrow>
   distinct (map fst fs) \<Longrightarrow>
   (\<forall>(name, value) \<in> set fs.
      if value = PNone then map_of d name = map_of acc name
      else \<exists>v. new_value limit db store depth language value = Inr v \<and> map_of d name = Some v) \<and>
   (\<forall>name. name \<notin> fst ` set fs \<longrightarrow> map_of d name = map_of acc name)"
proof (induction fs arbitrary: acc)
  case Nil
  then show ?case by simp
next
  case (Cons p fs)
  obtain name val where p: "p = (name, val)" by (cases p)
  have dist: "distinct (map fst fs)" and fresh: "name \<notin> fst ` set fs"
    using Cons.prems(2) by (simp_all add: p)
  show ?case
  proof (cases "val = PNone")
    case True
    then have rest: "translated_dict_loop limit db store depth language fs acc = Inr d"
      using Cons.prems(1) by (simp add: p)
    note ih = Cons.IH[OF rest dist]
    have "map_of d name = map_of acc name" using ih fresh by blast
    then show ?thesis using ih True by (auto simp: p)
  next
    case False
    then obtain v where v: "new_value limit db store depth language val = Inr v"
      and rest: "translated_dict_loop limit db store depth language fs (AList.update name v acc) = Inr d"
      using Cons.prems(1) by (auto simp: p split: sum.splits)
    note ih = Cons.IH[OF rest dist]
    have here: "map_of d name = Some v" using ih fresh by (simp add: update_conv')
    have tail: "\<forall>(n, x) \<in> set fs.
        if x = PNone then map_of d n = map_of acc n
        else \<exists>v. new_value limit db store depth language x = Inr v \<and> map_of d n = Some v"
    proof (clarify)
      fix n x assume nx: "(n, x) \<in> set fs"
      then have "n \<noteq> name" using fresh by force
      then show "if x = PNone then map_of d n = map_of acc n
        else \<exists>v. new_value limit db store depth language x = Inr v \<and> map_of d n = Some v"
        using ih nx by (auto simp: update_conv')
    qed
    have out: "\<forall>n. n \<notin> fst ` set (p # fs) \<longrightarrow> map_of d n = map_of acc n"
      using ih by (simp add: p update_conv')
    show ?thesis using False v here tail out by (simp add: p)
  qed
qed

lemma loop_Inl:
  "translated_dict_loop limit db store depth language fs acc = Inl e \<Longrightarrow>
   \<exists>(name, value) \<in> set fs. value \<noteq> PNone \<and> new_value limit db store depth language value = Inl e"
proof (induction fs arbitrary: acc)
  case Nil
  then show ?case by simp
next
  case (Cons p fs)
  obtain name val where p: "p = (name, val)" by (cases p)
  show ?case
  proof (cases "val \<noteq> PNone \<and> new_value limit db store depth language val = Inl e")
    case True
    then show ?thesis by (auto simp: p)
  next
    case False
    then have "\<exists>acc'. translated_dict_loop limit db store depth language fs acc' = Inl e"
      using Cons.prems by (auto simp: p split: sum.splits if_splits)
    then show ?thesis using Cons.IH by (auto simp: p)
  qed
qed

lemma nested_call:
  "translated_dict_loop k db store True language (store r) [] =
   instance_as_translated_dict k db store r True (Some language) None"
  by (simp add: instance_as_translated_dict_def resolve_language_def)

lemma new_value_cases:
  "new_value limit db store depth language value = res \<Longrightarrow> value \<noteq> PNone \<Longrightarrow>
   (\<forall>item. value = PItem item \<longrightarrow>
      (case Translation_objects_get db item language of
         Inl e \<Rightarrow> res = Inl e | Inr t \<Rightarrow> res = Inr (PStr (t_text t)))) \<and>
   (\<forall>r. value = PModel r \<longrightarrow>
      (if depth then
         (case limit of
            0 \<Rightarrow> res = Inl RecursionError
          | Suc k \<Rightarrow>
              (case instance_as_translated_dict k db store r True (Some language) None of
                 Inl e \<Rightarrow> res = Inl e | Inr d \<Rightarrow> res = Inr (PDict d)))
       else res = Inr (PModel r))) \<and>
   (\<forall>f. value = PFile f \<longrightarrow>
      res = Inr (if file_name f \<noteq> []
                 then PDict [(''name'', PStr (file_name f)), (''url'', PStr (file_url f)),
                             (''path'', PStr (file_path f))]
                 else PStr [])) \<and>
   (is_plain value \<longrightarrow> res = Inr value)"
  by (cases "value")
    (auto simp: nested_call[symmetric] truthy_file_def file_dict_def split: sum.splits nat.splits)


lemma Translation_objects_get_Lang:
  "Translation_objects_get db item (Lang l) = Inr t \<longleftrightarrow>
   filter (\<lambda>t. t_item t = i_pk item \<and> Some (t_language t) = l_pk l) (ddt_translations db) = [t]"
  by (simp add: Translation_objects_get_def objects_get_Inr_iff)

text \<open>
  C1, as amended. For a model instance whose field names are distinct and a resolved
  Language, \<open>instance_as_translated_dict\<close> returns a mapping in which every declared
  attribute whose value is not \<open>None\<close> is handled by this case analysis: an Item is replaced
  by the text of the one Translation of that Item in the Language; another model instance
  is replaced by its own serialization when depth is on (one nested call, within the
  nesting limit) and passed through when depth is off; a file or image that holds a file
  becomes the dictionary of its name, url and path, and one that holds no file becomes the
  empty string; every other value is passed through unchanged. An attribute whose value
  is \<open>None\<close> gets no key. The call raises instead only when the lookup of a Translation
  raises, or when a nested call raises or exceeds the nesting limit.
\<close>

theorem instance_as_translated_dict_case_analysis:
  assumes names: "distinct (map fst (store inst))"
  shows
    "(case instance_as_translated_dict limit db store inst depth (Some (Lang l)) request of
        Inr d \<Rightarrow>
          (\<forall>(name, value) \<in> set (store inst).
             (value = PNone \<longrightarrow> map_of d name = None) \<and>
             (\<forall>item. value = PItem item \<longrightarrow>
                (\<exists>t. filter (\<lambda>t. t_item t = i_pk item \<and> Some (t_language t) = l_pk l)
                        (ddt_translations db) = [t] \<and>
                     map_of d name = Some (PStr (t_text t)))) \<and>
             (\<forall>r. value = PModel r \<longrightarrow>
                (if depth then
                   (\<exists>k d'. limit = Suc k \<and>
                      instance_as_translated_dict k db store r True (Some (Lang l)) None = Inr d' \<and>
                      map_of d name = Some (PDict d'))
                 else map_of d name = Some (PModel r))) \<and>
             (\<forall>f. value = PFile f \<longrightarrow>
                map_of d name =
                  Some (if file_name f \<noteq> []
                        then PDict [(''name'', PStr (file_name f)), (''url'', PStr (file_url f)),
                                    (''path'', PStr (file_path f))]
                        else PStr [])) \<and>
             (is_plain value \<longrightarrow> map_of d name = Some value)) \<and>
          (\<forall>name. name \<notin> fst ` set (store inst) \<longrightarrow> map_of d name = None)
      | Inl e \<Rightarrow>
          (\<exists>(name, value) \<in> set (store inst).
             (\<exists>item. value = PItem item \<and> Translation_objects_get db item (Lang l) = Inl e) \<or>
             (\<exists>r. value = PModel r \<and> depth \<and>
                  (limit = 0 \<and> e = RecursionError \<or>
                   (\<exists>k. limit = Suc k \<and>
                      instance_as_translated_dict k db store r True (Some (Lang l)) None = Inl e)))))"
proof -
  have eq: "instance_as_translated_dict limit db store inst depth (Some (Lang l)) request =
            translated_dict_loop limit db store depth (Lang l) (store inst) []"
    by (simp add: instance_as_translated_dict_def resolve_language_def)
  show ?thesis
  proof (cases "translated_dict_loop limit db store depth (Lang l) (store inst) []")
    case (Inl e)
    from loop_Inl[OF Inl] obtain name val where
      nv: "(name, val) \<in> set (store inst)" "val \<noteq> PNone"
        "new_value limit db store depth (Lang l) val = Inl e"
      by blast
    note c = new_value_cases[OF nv(3) nv(2)]
    have "(\<exists>item. val = PItem item \<and> Translation_objects_get db item (Lang l) = Inl e) \<or>
          (\<exists>r. val = PModel r \<and> depth \<and>
               (limit = 0 \<and> e = RecursionError \<or>
                (\<exists>k. limit = Suc k \<and>
                   instance_as_translated_dict k db store r True (Some (Lang l)) None = Inl e)))"
    proof (cases val)
      case (PItem item)
      then show ?thesis using c by (auto split: sum.splits)
    next
      case (PModel r)
      show ?thesis
      proof (cases limit)
        case 0
        then show ?thesis using c PModel by (auto split: if_splits)
      next
        case (Suc k)
        then show ?thesis using c PModel
          by (cases "instance_as_translated_dict k db store r True (Some (Lang l)) None")
            (auto split: if_splits)
      qed
    qed (use c nv(2) in auto)
    then have "\<exists>p \<in> set (store inst). case p of (name, value) \<Rightarrow>
          (\<exists>item. value = PItem item \<and> Translation_objects_get db item (Lang l) = Inl e) \<or>
          (\<exists>r. value = PModel r \<and> depth \<and>
               (limit = 0 \<and> e = RecursionError \<or>
                (\<exists>k. limit = Suc k \<and>
                   instance_as_translated_dict k db store r True (Some (Lang l)) None = Inl e)))"
      using nv(1) by (intro bexI[of _ "(name, val)"]) simp_all
    then show ?thesis by (simp add: eq Inl)
  next
    case (Inr d)
    note lp = loop_Inr[OF Inr names]
    have out: "\<forall>name. name \<notin> fst ` set (store inst) \<longrightarrow> map_of d name = None"
      using lp by simp
    have each: "(val = PNone \<longrightarrow> map_of d name = None) \<and>
             (\<forall>item. val = PItem item \<longrightarrow>
                (\<exists>t. filter (\<lambda>t. t_item t = i_pk item \<and> Some (t_language t) = l_pk l)
                        (ddt_translations db) = [t] \<and>
                     map_of d name = Some (PStr (t_text t)))) \<and>
             (\<forall>r. val = PModel r \<longrightarrow>
                (if depth then
                   (\<exists>k d'. limit = Suc k \<and>
                      instance_as_translated_dict k db store r True (Some (Lang l)) None = Inr d' \<and>
                      map_of d name = Some (PDict d'))
                 else map_of d name = Some (PModel r))) \<and>
             (\<forall>f. val = PFile f \<longrightarrow>
                map_of d name =
                  Some (if file_name f \<noteq> []
                        then PDict [(''name'', PStr (file_name f)), (''url'', PStr (file_url f)),
                                    (''path'', PStr (file_path f))]
                        else PStr [])) \<and>
             (is_plain val \<longrightarrow> map_of d name = Some val)"
      if nv: "(name, val) \<in> set (store inst)" for name val
    proof (cases "val = PNone")
      case True
      then show ?thesis using lp nv by auto
    next
      case False
      then obtain v where v: "new_value limit db store depth (Lang l) val = Inr v"
        "map_of d name = Some v"
        using lp nv by fastforce
      note c = new_value_cases[OF v(1) False]
      show ?thesis
      proof (cases val)
        case (PItem item)
        then show ?thesis using c v(2)
          by (auto split: sum.splits simp: Translation_objects_get_Lang)
      next
        case (PModel r)
        show ?thesis
        proof (cases limit)
          case 0
          then show ?thesis using c v(2) PModel by (auto split: if_splits)
        next
          case (Suc k)
          then show ?thesis using c v(2) PModel
            by (cases "instance_as_translated_dict k db store r True (Some (Lang l)) None")
              (auto split: if_splits)
        qed
      qed (use c v(2) False in auto)
    qed
    show ?thesis using each out by (auto simp: eq Inr)
  qed
qed


lemma sample_serialized:
  "instance_as_translated_dict (Suc 0) sample_db sample_store 0 True (Some (Lang french)) None =
     Inr serialized_article"
  by (simp add: instance_as_translated_dict_def resolve_language_def sample_store_def
      Translation_objects_get_def objects_get_def sample_db_def french_def english_def
      title_item_def truthy_file_def file_dict_def empty_photo_def avatar_def
      serialized_article_def serialized_author_def)

theorem instance_as_translated_dict_case_analysis_witness:
  "distinct (map fst (sample_store 0)) \<and>
   (\<exists>d. instance_as_translated_dict (Suc 0) sample_db sample_store 0 True (Some (Lang french)) None
          = Inr d \<and>
        map_of d ''title'' = Some (PStr ''Bonjour'') \<and>
        map_of d ''author'' = Some (PDict serialized_author) \<and>
        map_of d ''id'' = Some (PInt 7) \<and>
        map_of d ''photo'' = Some (PStr []) \<and>
        map_of d ''subtitle'' = None)"
proof -
  have n: "distinct (map fst (sample_store 0))" by (simp add: sample_store_def)
  have author: "instance_as_translated_dict 0 sample_db sample_store 1 True (Some (Lang french)) None =
                Inr serialized_author"
    by (simp add: instance_as_translated_dict_def resolve_language_def sample_store_def
        truthy_file_def file_dict_def avatar_def serialized_author_def)
  have trans: "filter (\<lambda>t. t_item t = i_pk title_item \<and> Some (t_language t) = l_pk french)
                 (ddt_translations sample_db) = [\<lparr>t_pk = 1, t_language = 1, t_item = 1, t_text = ''Bonjour''\<rparr>]"
    by (simp add: sample_db_def title_item_def french_def)
  note main = instance_as_translated_dict_case_analysis[where store = sample_store and inst = 0 and limit = "Suc 0"
      and db = sample_db and depth = True and l = french and request = None, OF n]
  obtain d where d: "instance_as_translated_dict (Suc 0) sample_db sample_store 0 True
      (Some (Lang french)) None = Inr d"
    using sample_serialized by blast
  from main have each: "\<forall>(name, value) \<in> set (sample_store 0).
             (value = PNone \<longrightarrow> map_of d name = None) \<and>
             (\<forall>item. value = PItem item \<longrightarrow>
                (\<exists>t. filter (\<lambda>t. t_item t = i_pk item \<and> Some (t_language t) = l_pk french)
                        (ddt_translations sample_db) = [t] \<and>
                     map_of d name = Some (PStr (t_text t)))) \<and>
             (\<forall>r. value = PModel r \<longrightarrow>
                   (\<exists>k d'. Suc 0 = Suc k \<and>
                      instance_as_translated_dict k sample_db sample_store r True (Some (Lang french)) None = Inr d' \<and>
                      map_of d name = Some (PDict d'))) \<and>
             (\<forall>f. value = PFile f \<longrightarrow>
                map_of d name =
                  Some (if file_name f \<noteq> []
                        then PDict [(''name'', PStr (file_name f)), (''url'', PStr (file_url f)),
                                    (''path'', PStr (file_path f))]
                        else PStr [])) \<and>
             (is_plain value \<longrightarrow> map_of d name = Some value)"
    by (simp add: d)
  have "map_of d ''title'' = Some (PStr ''Bonjour'')"
    using each trans by (simp add: sample_store_def)
  moreover have "map_of d ''author'' = Some (PDict serialized_author)"
    using each author by (simp add: sample_store_def)
  moreover have "map_of d ''id'' = Some (PInt 7)"
    using each by (simp add: sample_store_def)
  moreover have "map_of d ''photo'' = Some (PStr [])"
    using each by (simp add: sample_store_def empty_photo_def)
  moreover have "map_of d ''subtitle'' = None"
    using each by (simp add: sample_store_def)
  ultimately show ?thesis using n d by simp
qed


text \<open>
  The claim C1 as it is written fails on the article of the sample store: its photo is a
  file attribute and is serialized as the empty string, not as a dictionary of name, url
  and path; its subtitle is \<open>None\<close> and is not passed through, the result has no such key.
\<close>

theorem instance_as_translated_dict_case_analysis_counterexample:
  "(''photo'', PFile empty_photo) \<in> set (sample_store 0) \<and>
   (''subtitle'', PNone) \<in> set (sample_store 0) \<and>
   instance_as_translated_dict (Suc 0) sample_db sample_store 0 True (Some (Lang french)) None =
     Inr serialized_article \<and>
   map_of serialized_article ''photo'' = Some (PStr []) \<and>
   PStr [] \<noteq> PDict [(''name'', PStr (file_name empty_photo)), (''url'', PStr (file_url empty_photo)),
                      (''path'', PStr (file_path empty_photo))] \<and>
   map_of serialized_article ''subtitle'' = None"
  by (simp add: sample_serialized) (simp add: sample_store_def serialized_article_def)

end
